theory Spec2Isabelle
  imports Main
begin

section \<open>The isy994 configuration flow\<close>

text \<open>
  A shallow embedding of \<^verbatim>\<open>homeassistant/components/isy994/config_flow.py\<close>.
  Exceptions are values of a sum type, the flow object is a record that every step
  returns updated, and the libraries the module calls (the URL parser and the
  device-control library) are parameters of the model.
\<close>

subsection \<open>Python values and exceptions\<close>

text \<open>
  The values a device configuration holds: strings (name, uuid, firmware), booleans
  (feature flags) and \<^verbatim>\<open>None\<close>.
\<close>

datatype pyval = PyNone | PyBool bool | PyStr string

text \<open>Truthiness, as \<^verbatim>\<open>not v\<close> tests it.\<close>

fun py_truthy :: "pyval \<Rightarrow> bool" where
  "py_truthy PyNone = False"
| "py_truthy (PyBool b) = b"
| "py_truthy (PyStr s) = (s \<noteq> [])"

text \<open>\<^verbatim>\<open>str(v)\<close>, which an f-string applies to each interpolated value.\<close>

fun py_str :: "pyval \<Rightarrow> string" where
  "py_str PyNone = ''None''"
| "py_str (PyBool b) = (if b then ''True'' else ''False'')"
| "py_str (PyStr s) = s"

text \<open>
  The exceptions of the module: its own three classes, the built-in ones its
  expressions can raise, and \<open>OtherException\<close> for whatever else a library raises.
  \<open>ValueError\<close> carries the \<^verbatim>\<open>args\<close> tuple, which the module indexes.
\<close>

datatype py_exc =
    InvalidHost
  | CannotConnect
  | InvalidAuth string
  | ValueError "string list"
  | KeyError string
  | IndexError
  | OtherException string

subsection \<open>Data\<close>

text \<open>The two values the form schema admits for the TLS version, 1.1 and 1.2.\<close>

datatype tls_version = TLS_1_1 | TLS_1_2

text \<open>
  The submitted input. \<^verbatim>\<open>validate_input\<close> documents that it has the keys of the
  form schema, where host, username and password are required strings and the TLS
  version is optional; the schema allows extra keys, which the module never reads.
\<close>

record user_input =
  host :: string
  username :: string
  password :: string
  tls_ver :: "tls_version option"
  extra :: "(string \<times> pyval) list"

text \<open>
  What the module reads of the result of \<^verbatim>\<open>urlparse\<close>. The attribute
  \<^verbatim>\<open>port\<close> is computed when read and raises \<^verbatim>\<open>ValueError\<close> on a port that is
  not a number in range; \<^verbatim>\<open>hostname\<close> and \<^verbatim>\<open>port\<close> are \<^verbatim>\<open>None\<close> when absent.
\<close>

record parse_result =
  scheme :: string
  hostname :: "string option"
  port :: "py_exc + int option"
  path :: string

text \<open>The seven arguments of \<^verbatim>\<open>_fetch_isy_configuration\<close>.\<close>

record fetch_args =
  arg_address :: "string option"
  arg_port :: int
  arg_username :: string
  arg_password :: string
  arg_use_https :: bool
  arg_tls_ver :: "tls_version option"
  arg_webroot :: string

text \<open>
  The configuration the device-control library returns is a dictionary; an association
  list read with \<open>map_of\<close>, empty exactly when the dictionary is.
\<close>

type_synonym isy_configuration = "(string \<times> pyval) list"

text \<open>
  The libraries: \<^verbatim>\<open>urllib.parse.urlparse\<close>, the constructor
  \<^verbatim>\<open>pyisy.connection.Connection\<close>, its method \<^verbatim>\<open>get_config\<close> and the constructor
  \<^verbatim>\<open>pyisy.configuration.Configuration\<close>. Each may raise.
\<close>

record ('c, 'd) libs =
  urlparse :: "string \<Rightarrow> py_exc + parse_result"
  Connection :: "fetch_args \<Rightarrow> py_exc + 'c"
  get_config :: "'c \<Rightarrow> py_exc + 'd"
  Configuration :: "'d \<Rightarrow> py_exc + isy_configuration"

text \<open>
  The constants the module imports from \<^verbatim>\<open>homeassistant.const\<close> and \<^verbatim>\<open>.const\<close>
  whose values are defined outside this module; the model takes them as parameters.
\<close>

record module_consts =
  CONF_HOST :: string
  CONF_NAME :: string
  DEFAULT_TLS_VERSION :: tls_version
  CONF_IGNORE_STRING :: string
  CONF_SENSOR_STRING :: string
  CONF_VAR_SENSOR_STRING :: string
  CONF_RESTORE_LIGHT_STATE :: string
  DEFAULT_IGNORE_STRING :: pyval
  DEFAULT_SENSOR_STRING :: pyval
  DEFAULT_VAR_SENSOR_STRING :: pyval
  DEFAULT_RESTORE_LIGHT_STATE :: pyval

text \<open>
  Modelled from the spec: the constant \<^verbatim>\<open>UDN_UUID_PREFIX\<close> of \<^verbatim>\<open>.const\<close>, the
  known prefix of a discovered device identifier.
\<close>

definition UDN_UUID_PREFIX :: string where
  "UDN_UUID_PREFIX = ''uuid:''"

text \<open>
  Modelled from the spec: the constant \<^verbatim>\<open>ISY_URL_POSTFIX\<close> of \<^verbatim>\<open>.const\<close>, the
  known suffix of a discovered location URL.
\<close>

definition ISY_URL_POSTFIX :: string where
  "ISY_URL_POSTFIX = ''/desc''"

text \<open>The dictionary \<^verbatim>\<open>validate_input\<close> returns.\<close>

record info =
  title :: string
  uuid :: pyval

text \<open>
  The form schema of the user step: the default of the host field and of the TLS
  version field. Username and password are required and have no default.
\<close>

record form_schema =
  host_default :: string
  tls_ver_default :: tls_version

text \<open>
  What a step returns to the framework: a form to show (step id, schema, errors), an
  entry to create (title, data), or an abort.
\<close>

datatype ('s, 'd) flow_result =
    ShowForm string 's "(string \<times> string) list option"
  | CreateEntry string 'd
  | Abort

text \<open>
  The flow object: the prefill state of the discovery step, the unique id the
  framework keeps for the flow (\<^verbatim>\<open>None\<close> until set) and the title placeholders of
  its context.
\<close>

record flow =
  discovered_conf :: "string \<rightharpoonup> string"
  unique_id :: pyval
  title_placeholders :: "(string \<rightharpoonup> string) option"

text \<open>What the discovery step reads of a discovery record.\<close>

record discovery_info =
  upnp_friendly_name :: string
  ssdp_location :: string
  upnp_udn :: string


subsection \<open>Helpers for Python expressions\<close>

text \<open>\<^verbatim>\<open>p or d\<close> on an optional port: \<^verbatim>\<open>None\<close> and 0 are falsy.\<close>

definition port_or :: "int option \<Rightarrow> int \<Rightarrow> int" where
  "port_or p d = (case p of None \<Rightarrow> d | Some n \<Rightarrow> if n = 0 then d else n)"

text \<open>\<^verbatim>\<open>str\<close> of an optional string, as the f-string of the title formats the hostname.\<close>

definition str_of_optional :: "string option \<Rightarrow> string" where
  "str_of_optional h = (case h of None \<Rightarrow> ''None'' | Some s \<Rightarrow> s)"

definition startswith :: "string \<Rightarrow> string \<Rightarrow> bool" where
  "startswith s p = (take (length p) s = p)"

definition endswith :: "string \<Rightarrow> string \<Rightarrow> bool" where
  "endswith s p = (length p \<le> length s \<and> drop (length s - length p) s = p)"

text \<open>The slice \<^verbatim>\<open>s[n:]\<close> for \<open>n \<ge> 0\<close>.\<close>

definition slice_from :: "string \<Rightarrow> nat \<Rightarrow> string" where
  "slice_from s n = drop n s"

text \<open>
  The slice \<^verbatim>\<open>s[:-n]\<close> for \<open>n \<ge> 0\<close>. With \<open>n = 0\<close> the bound is \<^verbatim>\<open>-0\<close>, that is
  0, and the slice is empty.
\<close>

definition slice_to_neg :: "string \<Rightarrow> nat \<Rightarrow> string" where
  "slice_to_neg s n = (if n = 0 then [] else take (length s - n) s)"


subsection \<open>Validation\<close>

text \<open>
  \<^verbatim>\<open>_fetch_isy_configuration\<close>: a \<^verbatim>\<open>ValueError\<close> of the connection constructor
  is raised again as \<^verbatim>\<open>InvalidAuth(err.args[0])\<close>, where indexing an empty
  \<^verbatim>\<open>args\<close> raises \<^verbatim>\<open>IndexError\<close>; every other exception propagates.
\<close>

definition fetch_isy_configuration ::
  "('c, 'd) libs \<Rightarrow> fetch_args \<Rightarrow> py_exc + isy_configuration" where
  "fetch_isy_configuration L a =
     (case Connection L a of
        Inl err \<Rightarrow>
          (case err of
             ValueError args \<Rightarrow>
               (case args of [] \<Rightarrow> Inl IndexError | m # _ \<Rightarrow> Inl (InvalidAuth m))
           | _ \<Rightarrow> Inl err)
      | Inr isy_conn \<Rightarrow>
          (case get_config L isy_conn of
             Inl err \<Rightarrow> Inl err
           | Inr doc \<Rightarrow> Configuration L doc))"

text \<open>
  The branch on the scheme at the head of \<^verbatim>\<open>validate_input\<close>: the encryption flag
  and the effective port, or the exception raised (by reading the port, or
  \<^verbatim>\<open>InvalidHost\<close>).
\<close>

definition scheme_and_port :: "parse_result \<Rightarrow> py_exc + (bool \<times> int)" where
  "scheme_and_port h =
     (if scheme h = ''http'' then
        (case port h of Inl err \<Rightarrow> Inl err | Inr p \<Rightarrow> Inr (False, port_or p 80))
      else if scheme h = ''https'' then
        (case port h of Inl err \<Rightarrow> Inl err | Inr p \<Rightarrow> Inr (True, port_or p 443))
      else Inl InvalidHost)"

text \<open>
  The end of \<^verbatim>\<open>validate_input\<close>, after the fetch: the test of the configuration
  and the dictionary returned. The three tests are tried in order, as \<^verbatim>\<open>or\<close>
  does, so the name is read only where the key is present.
\<close>

definition check_configuration :: "parse_result \<Rightarrow> isy_configuration \<Rightarrow> py_exc + info" where
  "check_configuration h isy_conf =
     (if isy_conf = [] then Inl CannotConnect
      else case map_of isy_conf ''name'' of
             None \<Rightarrow> Inl CannotConnect
           | Some name \<Rightarrow>
               if \<not> py_truthy name then Inl CannotConnect
               else case map_of isy_conf ''uuid'' of
                      None \<Rightarrow> Inl (KeyError ''uuid'')
                    | Some u \<Rightarrow>
                        Inr \<lparr>title = py_str name @ '' ('' @ str_of_optional (hostname h) @ '')'',
                             uuid = u\<rparr>)"

text \<open>
  \<^verbatim>\<open>validate_input\<close>. The second component of the result lists the calls of
  \<^verbatim>\<open>_fetch_isy_configuration\<close> made, with their arguments.
\<close>

definition validate_input ::
  "('c, 'd) libs \<Rightarrow> user_input \<Rightarrow> (py_exc + info) \<times> fetch_args list" where
  "validate_input L data =
     (case urlparse L (host data) of
        Inl err \<Rightarrow> (Inl err, [])
      | Inr h \<Rightarrow>
          (case scheme_and_port h of
             Inl err \<Rightarrow> (Inl err, [])
           | Inr (https, prt) \<Rightarrow>
               (let a = \<lparr>arg_address = hostname h, arg_port = prt,
                         arg_username = username data, arg_password = password data,
                         arg_use_https = https, arg_tls_ver = tls_ver data,
                         arg_webroot = path h\<rparr>
                in (case fetch_isy_configuration L a of
                      Inl err \<Rightarrow> Inl err
                    | Inr isy_conf \<Rightarrow> check_configuration h isy_conf,
                    [a]))))"

subsection \<open>The configuration flow\<close>

text \<open>\<^verbatim>\<open>_data_schema\<close>: the host default is \<^verbatim>\<open>schema_input.get(CONF_HOST, "")\<close>.\<close>

definition data_schema :: "module_consts \<Rightarrow> (string \<rightharpoonup> string) \<Rightarrow> form_schema" where
  "data_schema K schema_input =
     \<lparr>host_default = (case schema_input (CONF_HOST K) of None \<Rightarrow> [] | Some v \<Rightarrow> v),
      tls_ver_default = DEFAULT_TLS_VERSION K\<rparr>"

text \<open>
  The error kind the \<^verbatim>\<open>except\<close> clauses of \<^verbatim>\<open>async_step_user\<close> give to an
  exception of the validation.
\<close>

fun error_kind :: "py_exc \<Rightarrow> string" where
  "error_kind CannotConnect = ''cannot_connect''"
| "error_kind InvalidHost = ''invalid_host''"
| "error_kind (InvalidAuth m) = ''invalid_auth''"
| "error_kind e = ''unknown''"

text \<open>
  Modelled from the spec: the framework's \<^verbatim>\<open>async_set_unique_id\<close>, which records
  the deduplication identifier of the flow.
\<close>

definition async_set_unique_id :: "pyval \<Rightarrow> flow \<Rightarrow> flow" where
  "async_set_unique_id uid self = self\<lparr>unique_id := uid\<rparr>"

text \<open>
  Modelled from the spec: the framework's \<^verbatim>\<open>_abort_if_unique_id_configured\<close>, which
  aborts the flow when an entry with the flow's deduplication identifier already exists.
  The first argument lists the unique identifiers of the configured entries; the result
  tells whether the flow aborts.
\<close>

definition abort_if_unique_id_configured :: "string list \<Rightarrow> flow \<Rightarrow> bool" where
  "abort_if_unique_id_configured configured self = (unique_id self \<in> set (map PyStr configured))"

text \<open>
  \<^verbatim>\<open>async_step_user\<close>. The form is built from the prefill state of the flow,
  \<^verbatim>\<open>self.discovered_conf\<close>.
\<close>

definition async_step_user ::
  "module_consts \<Rightarrow> ('c, 'd) libs \<Rightarrow> string list \<Rightarrow> flow \<Rightarrow> user_input option
     \<Rightarrow> flow \<times> (form_schema, user_input) flow_result" where
  "async_step_user K L configured self user_input =
     (case user_input of
        None \<Rightarrow> (self, ShowForm ''user'' (data_schema K (discovered_conf self)) (Some []))
      | Some ui \<Rightarrow>
          (case fst (validate_input L ui) of
             Inl err \<Rightarrow>
               (self, ShowForm ''user'' (data_schema K (discovered_conf self))
                        (Some [(''base'', error_kind err)]))
           | Inr info \<Rightarrow>
               (let self1 = async_set_unique_id (uuid info) self
                in if abort_if_unique_id_configured configured self1 then (self1, Abort)
                   else (self1, CreateEntry (title info) ui))))"

text \<open>\<^verbatim>\<open>async_step_import\<close>.\<close>

definition async_step_import ::
  "module_consts \<Rightarrow> ('c, 'd) libs \<Rightarrow> string list \<Rightarrow> flow \<Rightarrow> user_input
     \<Rightarrow> flow \<times> (form_schema, user_input) flow_result" where
  "async_step_import K L configured self user_input =
     async_step_user K L configured self (Some user_input)"

text \<open>
  \<^verbatim>\<open>async_step_ssdp\<close>. Reading a key the discovery record lacks raises
  \<^verbatim>\<open>KeyError\<close> before anything else happens; the record type holds the three values
  read.
\<close>

definition async_step_ssdp ::
  "module_consts \<Rightarrow> ('c, 'd) libs \<Rightarrow> string list \<Rightarrow> flow \<Rightarrow> discovery_info
     \<Rightarrow> flow \<times> (form_schema, user_input) flow_result" where
  "async_step_ssdp K L configured self discovery =
     (let friendly_name = upnp_friendly_name discovery;
          url = ssdp_location discovery;
          mac = upnp_udn discovery;
          mac = (if startswith mac UDN_UUID_PREFIX
                 then slice_from mac (length UDN_UUID_PREFIX) else mac);
          url = (if endswith url ISY_URL_POSTFIX
                 then slice_to_neg url (length ISY_URL_POSTFIX) else url);
          self1 = async_set_unique_id (PyStr mac) self
      in if abort_if_unique_id_configured configured self1 then (self1, Abort)
         else (let conf = [CONF_NAME K \<mapsto> friendly_name, CONF_HOST K \<mapsto> url];
                   self2 = self1\<lparr>discovered_conf := conf, title_placeholders := Some conf\<rparr>
               in async_step_user K L configured self2 None))"

subsection \<open>The options flow\<close>











subsection \<open>A new flow, and what a form shows\<close>

text \<open>\<^verbatim>\<open>ConfigFlow.__init__\<close>: a new flow has an empty prefill state and no unique id.\<close>

definition init_flow :: flow where
  "init_flow = \<lparr>discovered_conf = Map.empty, unique_id = PyNone, title_placeholders = None\<rparr>"

text \<open>The host a form is pre-filled with, if the result of a step is a form.\<close>

definition prefilled_host :: "(form_schema, 'd) flow_result \<Rightarrow> string option" where
  "prefilled_host result =
     (case result of
        ShowForm step sch errs \<Rightarrow> Some (host_default sch)
      | CreateEntry t data \<Rightarrow> None
      | Abort \<Rightarrow> None)"

subsection \<open>Example inputs\<close>

text \<open>
  Concrete values on which the theorems below are instantiated: values for the
  constants, a table of what \<^verbatim>\<open>urlparse\<close> returns on a few URLs, a device-control
  library whose connection constructor and configuration are fixed, and a submission.
\<close>

definition example_consts :: module_consts where
  "example_consts =
     \<lparr>CONF_HOST = ''host'', CONF_NAME = ''name'', DEFAULT_TLS_VERSION = TLS_1_1,
      CONF_IGNORE_STRING = ''ignore_string'', CONF_SENSOR_STRING = ''sensor_string'',
      CONF_VAR_SENSOR_STRING = ''var_sensor_string'',
      CONF_RESTORE_LIGHT_STATE = ''restore_light_state'',
      DEFAULT_IGNORE_STRING = PyStr ''{IGNORE ME}'', DEFAULT_SENSOR_STRING = PyStr ''sensor'',
      DEFAULT_VAR_SENSOR_STRING = PyStr ''HA.'', DEFAULT_RESTORE_LIGHT_STATE = PyBool False\<rparr>"

definition example_urlparse :: "string \<Rightarrow> py_exc + parse_result" where
  "example_urlparse s =
     (if s = ''http://192.168.1.50'' then
        Inr \<lparr>scheme = ''http'', hostname = Some ''192.168.1.50'', port = Inr None, path = []\<rparr>
      else if s = ''https://192.168.1.50'' then
        Inr \<lparr>scheme = ''https'', hostname = Some ''192.168.1.50'', port = Inr None, path = []\<rparr>
      else if s = ''ftp://192.168.1.50'' then
        Inr \<lparr>scheme = ''ftp'', hostname = Some ''192.168.1.50'', port = Inr None, path = []\<rparr>
      else Inr \<lparr>scheme = [], hostname = None, port = Inr None, path = s\<rparr>)"

definition example_libs :: "py_exc + unit \<Rightarrow> isy_configuration \<Rightarrow> (unit, unit) libs" where
  "example_libs conn conf =
     \<lparr>urlparse = example_urlparse, Connection = (\<lambda>a. conn),
      get_config = (\<lambda>c. Inr ()), Configuration = (\<lambda>d. Inr conf)\<rparr>"

definition hub_configuration :: isy_configuration where
  "hub_configuration = [(''name'', PyStr ''Hub1''), (''uuid'', PyStr ''ABC123'')]"

definition example_input :: "string \<Rightarrow> user_input" where
  "example_input url =
     \<lparr>host = url, username = ''admin'', password = ''secret'', tls_ver = Some TLS_1_1,
      extra = []\<rparr>"

definition example_args :: "bool \<Rightarrow> int \<Rightarrow> fetch_args" where
  "example_args https prt =
     \<lparr>arg_address = Some ''192.168.1.50'', arg_port = prt, arg_username = ''admin'',
      arg_password = ''secret'', arg_use_https = https, arg_tls_ver = Some TLS_1_1,
      arg_webroot = []\<rparr>"

definition example_discovery :: discovery_info where
  "example_discovery =
     \<lparr>upnp_friendly_name = ''ISY994'', ssdp_location = ''http://192.168.1.50:80/desc'',
      upnp_udn = ''uuid:ABC123''\<rparr>"

definition plain_discovery :: discovery_info where
  "plain_discovery =
     \<lparr>upnp_friendly_name = ''ISY994'', ssdp_location = ''http://192.168.1.50:80'',
      upnp_udn = ''ABC123''\<rparr>"

text \<open>The flow after the discovery of the example device.\<close>

definition discovered_flow :: flow where
  "discovered_flow =
     fst (async_step_ssdp example_consts (example_libs (Inr ()) hub_configuration) [] init_flow
            example_discovery)"


section \<open>Properties\<close>

subsection \<open>Auxiliary facts\<close>

lemma validate_input_call:
  assumes "snd (validate_input L ui) = [a]"
  shows "\<exists>h. urlparse L (host ui) = Inr h \<and>
             fst (validate_input L ui) =
               (case fetch_isy_configuration L a of
                  Inl err \<Rightarrow> Inl err
                | Inr isy_conf \<Rightarrow> check_configuration h isy_conf)"
  using assms
  by (auto simp add: validate_input_def Let_def split: sum.splits prod.splits)

lemma validate_input_args:
  assumes "urlparse L (host ui) = Inr h" and "scheme_and_port h = Inr (https, prt)"
  shows "snd (validate_input L ui) =
           [\<lparr>arg_address = hostname h, arg_port = prt, arg_username = username ui,
             arg_password = password ui, arg_use_https = https, arg_tls_ver = tls_ver ui,
             arg_webroot = path h\<rparr>]"
  using assms by (simp add: validate_input_def Let_def)

lemma async_step_user_failed:
  assumes "fst (validate_input L ui) = Inl err"
  shows "async_step_user K L configured self (Some ui) =
           (self, ShowForm ''user'' (data_schema K (discovered_conf self))
                    (Some [(''base'', error_kind err)]))"
  using assms by (simp add: async_step_user_def)

lemma async_step_user_validated:
  assumes "fst (validate_input L ui) = Inr info"
  shows "async_step_user K L configured self (Some ui) =
           (self\<lparr>unique_id := uuid info\<rparr>,
            if uuid info \<in> PyStr ` set configured then Abort else CreateEntry (title info) ui)"
  using assms
  by (simp add: async_step_user_def async_set_unique_id_def abort_if_unique_id_configured_def)

lemma startswith_append: "startswith (p @ r) p"
  by (simp add: startswith_def)

lemma endswith_append: "endswith (b @ p) p"
  by (simp add: endswith_def)

lemma example_validate:
  "validate_input (example_libs (Inr ()) hub_configuration) (example_input ''http://192.168.1.50'')
     = (Inr \<lparr>title = ''Hub1 (192.168.1.50)'', uuid = PyStr ''ABC123''\<rparr>, [example_args False 80])"
  by (simp add: validate_input_def example_libs_def example_urlparse_def example_input_def
      scheme_and_port_def port_or_def fetch_isy_configuration_def check_configuration_def
      hub_configuration_def str_of_optional_def example_args_def)

lemma startswith_iff: "startswith s p \<longleftrightarrow> (\<exists>r. s = p @ r)"
proof
  assume "startswith s p"
  then have "s = p @ drop (length p) s"
    by (metis append_take_drop_id startswith_def)
  then show "\<exists>r. s = p @ r" ..
next
  assume "\<exists>r. s = p @ r"
  then show "startswith s p" by (auto simp add: startswith_def)
qed

lemma endswith_iff: "endswith s p \<longleftrightarrow> (\<exists>b. s = b @ p)"
proof
  assume "endswith s p"
  then have "s = take (length s - length p) s @ p"
    by (metis append_take_drop_id endswith_def)
  then show "\<exists>b. s = b @ p" ..
next
  assume "\<exists>b. s = b @ p"
  then show "endswith s p" by (auto simp add: endswith_def)
qed

lemma slice_from_prefix: "slice_from (p @ r) (length p) = r"
  by (simp add: slice_from_def)

lemma slice_to_neg_suffix: "p \<noteq> [] \<Longrightarrow> slice_to_neg (b @ p) (length p) = b"
  by (simp add: slice_to_neg_def)

lemma async_step_ssdp_result:
  assumes "mac = (if startswith (upnp_udn d) UDN_UUID_PREFIX
                  then slice_from (upnp_udn d) (length UDN_UUID_PREFIX) else upnp_udn d)"
    and "url = (if endswith (ssdp_location d) ISY_URL_POSTFIX
                then slice_to_neg (ssdp_location d) (length ISY_URL_POSTFIX)
                else ssdp_location d)"
    and "conf = [CONF_NAME K \<mapsto> upnp_friendly_name d, CONF_HOST K \<mapsto> url]"
  shows "async_step_ssdp K L configured self d =
           (if mac \<in> set configured then (self\<lparr>unique_id := PyStr mac\<rparr>, Abort)
            else (self\<lparr>unique_id := PyStr mac, discovered_conf := conf,
                        title_placeholders := Some conf\<rparr>,
                  ShowForm ''user''
                    \<lparr>host_default = url, tls_ver_default = DEFAULT_TLS_VERSION K\<rparr> (Some [])))"
proof -
  have "PyStr mac \<in> PyStr ` set configured \<longleftrightarrow> mac \<in> set configured" by auto
  with assms show ?thesis
    by (simp add: async_step_ssdp_def async_set_unique_id_def abort_if_unique_id_configured_def
        async_step_user_def data_schema_def Let_def)
qed

lemma example_calls:
  "snd (validate_input (example_libs conn conf) (example_input ''http://192.168.1.50''))
     = [example_args False 80]"
  by (simp add: validate_input_def example_libs_def example_urlparse_def example_input_def
      scheme_and_port_def port_or_def example_args_def Let_def)

lemma example_discovery_id:
  "unique_id (fst (async_step_ssdp K L configured self example_discovery)) = PyStr ''ABC123''"
  by (simp add: async_step_ssdp_def example_discovery_def UDN_UUID_PREFIX_def
      ISY_URL_POSTFIX_def startswith_def endswith_def slice_from_def slice_to_neg_def
      async_set_unique_id_def abort_if_unique_id_configured_def async_step_user_def Let_def)

subsection \<open>Deduplication\<close>

text \<open>
  Claim C1. On the user and the import path, when the validation succeeds and the
  identifier it returns is the unique identifier of a configured entry, the step
  aborts; on the discovery path, when the identifier the step gives the flow is the
  unique identifier of a configured entry, the step aborts. An abort is not a created
  entry, and nothing else of the input enters the hypotheses.
\<close>

theorem dedup_match_aborts:
  "(fst (validate_input L ui) = Inr info \<and> uuid info = PyStr u \<and> u \<in> set configured \<longrightarrow>
      snd (async_step_user K L configured self (Some ui)) = Abort \<and>
      snd (async_step_import K L configured self ui) = Abort) \<and>
   (unique_id (fst (async_step_ssdp K L configured self d)) = PyStr u \<and> u \<in> set configured \<longrightarrow>
      snd (async_step_ssdp K L configured self d) = Abort)"
proof (intro conjI impI)
  assume h: "fst (validate_input L ui) = Inr info \<and> uuid info = PyStr u \<and> u \<in> set configured"
  then have "uuid info \<in> PyStr ` set configured" by simp
  with h show "snd (async_step_user K L configured self (Some ui)) = Abort"
    by (simp add: async_step_user_validated)
  then show "snd (async_step_import K L configured self ui) = Abort"
    by (simp add: async_step_import_def)
next
  assume h: "unique_id (fst (async_step_ssdp K L configured self d)) = PyStr u \<and> u \<in> set configured"
  show "snd (async_step_ssdp K L configured self d) = Abort"
  proof (rule ccontr)
    assume "snd (async_step_ssdp K L configured self d) \<noteq> Abort"
    with h show False
      by (auto simp add: async_step_ssdp_def async_set_unique_id_def
          abort_if_unique_id_configured_def async_step_user_def Let_def split: if_splits)
  qed
qed

theorem dedup_match_aborts_witness:
  "snd (async_step_user example_consts (example_libs (Inr ()) hub_configuration) [''ABC123'']
          init_flow (Some (example_input ''http://192.168.1.50''))) = Abort \<and>
   snd (async_step_import example_consts (example_libs (Inr ()) hub_configuration) [''ABC123'']
          init_flow (example_input ''http://192.168.1.50'')) = Abort \<and>
   snd (async_step_ssdp example_consts (example_libs (Inr ()) hub_configuration) [''ABC123'']
          init_flow example_discovery) = Abort"
proof -
  have v: "fst (validate_input (example_libs (Inr ()) hub_configuration)
                  (example_input ''http://192.168.1.50''))
             = Inr \<lparr>title = ''Hub1 (192.168.1.50)'', uuid = PyStr ''ABC123''\<rparr>"
    by (simp add: example_validate)
  show ?thesis
    using dedup_match_aborts [of "example_libs (Inr ()) hub_configuration"
        "example_input ''http://192.168.1.50''"
        "\<lparr>title = ''Hub1 (192.168.1.50)'', uuid = PyStr ''ABC123''\<rparr>" "''ABC123''" "[''ABC123'']"
        example_consts init_flow example_discovery] v
    by (simp add: example_discovery_id)
qed

subsection \<open>The created entry\<close>

text \<open>
  Claim C2. When the fetch made by the validation returns a configuration with the
  non-empty name \<open>n\<close> and the uuid \<open>u\<close>, and the parsed host has the hostname \<open>hn\<close>,
  the validation succeeds with the title \<open>n (hn)\<close> and the identifier \<open>u\<close>; unless
  \<open>u\<close> is already configured, the user step creates the entry with that title and the
  submitted data, and the flow has the unique id \<open>u\<close>.
\<close>

theorem validated_entry_title_and_id:
  assumes "snd (validate_input L ui) = [a]"
    and "fetch_isy_configuration L a = Inr conf"
    and "map_of conf ''name'' = Some (PyStr n)" and "n \<noteq> []"
    and "map_of conf ''uuid'' = Some (PyStr u)"
    and "urlparse L (host ui) = Inr h" and "hostname h = Some hn"
  shows "fst (validate_input L ui) = Inr \<lparr>title = n @ '' ('' @ hn @ '')'', uuid = PyStr u\<rparr> \<and>
         (u \<notin> set configured \<longrightarrow>
            async_step_user K L configured self (Some ui) =
              (self\<lparr>unique_id := PyStr u\<rparr>, CreateEntry (n @ '' ('' @ hn @ '')'') ui))"
proof -
  from assms(3) have ne: "conf \<noteq> []" by auto
  from validate_input_call [OF assms(1)] assms(2,6)
  have "fst (validate_input L ui) = check_configuration h conf" by auto
  with ne assms(3,4,5,7)
  have v: "fst (validate_input L ui) = Inr \<lparr>title = n @ '' ('' @ hn @ '')'', uuid = PyStr u\<rparr>"
    by (simp add: check_configuration_def str_of_optional_def)
  have "u \<notin> set configured \<Longrightarrow> PyStr u \<notin> PyStr ` set configured" by auto
  with v show ?thesis by (simp add: async_step_user_validated)
qed

theorem validated_entry_title_and_id_witness:
  "fst (validate_input (example_libs (Inr ()) hub_configuration)
          (example_input ''http://192.168.1.50''))
     = Inr \<lparr>title = ''Hub1 (192.168.1.50)'', uuid = PyStr ''ABC123''\<rparr> \<and>
   async_step_user example_consts (example_libs (Inr ()) hub_configuration) [] init_flow
       (Some (example_input ''http://192.168.1.50''))
     = (init_flow\<lparr>unique_id := PyStr ''ABC123''\<rparr>,
        CreateEntry ''Hub1 (192.168.1.50)'' (example_input ''http://192.168.1.50''))"
proof -
  have 1: "snd (validate_input (example_libs (Inr ()) hub_configuration)
                  (example_input ''http://192.168.1.50'')) = [example_args False 80]"
    by (simp add: example_validate)
  have 2: "fetch_isy_configuration (example_libs (Inr ()) hub_configuration)
             (example_args False 80) = Inr hub_configuration"
    by (simp add: fetch_isy_configuration_def example_libs_def)
  have 3: "map_of hub_configuration ''name'' = Some (PyStr ''Hub1'')"
    and 4: "''Hub1'' \<noteq> []"
    and 5: "map_of hub_configuration ''uuid'' = Some (PyStr ''ABC123'')"
    by (simp_all add: hub_configuration_def)
  have 6: "urlparse (example_libs (Inr ()) hub_configuration)
             (host (example_input ''http://192.168.1.50''))
           = Inr \<lparr>scheme = ''http'', hostname = Some ''192.168.1.50'', port = Inr None, path = []\<rparr>"
    by (simp add: example_libs_def example_input_def example_urlparse_def)
  have 7: "hostname \<lparr>scheme = ''http'', hostname = Some ''192.168.1.50'', port = Inr None,
                     path = []\<rparr> = Some ''192.168.1.50''"
    by simp
  show ?thesis
    using validated_entry_title_and_id [OF 1 2 3 4 5 6 7, of "[]" example_consts init_flow]
    by simp
qed

subsection \<open>The scheme of the host\<close>

text \<open>
  Claim C3. When the scheme of the parsed host is neither \<open>http\<close> nor \<open>https\<close>, the
  validation raises \<open>InvalidHost\<close> without any call of the fetch, and the user step
  shows the form with the error kind \<open>invalid_host\<close>.
\<close>

theorem unknown_scheme_invalid_host:
  assumes "urlparse L (host ui) = Inr h"
    and "scheme h \<noteq> ''http''" and "scheme h \<noteq> ''https''"
  shows "validate_input L ui = (Inl InvalidHost, []) \<and>
         async_step_user K L configured self (Some ui) =
           (self, ShowForm ''user'' (data_schema K (discovered_conf self))
                    (Some [(''base'', ''invalid_host'')]))"
proof -
  from assms have v: "validate_input L ui = (Inl InvalidHost, [])"
    by (simp add: validate_input_def scheme_and_port_def)
  then have "fst (validate_input L ui) = Inl InvalidHost" by simp
  from async_step_user_failed [OF this] v show ?thesis by simp
qed

theorem unknown_scheme_invalid_host_witness:
  "validate_input (example_libs (Inr ()) hub_configuration) (example_input ''ftp://192.168.1.50'')
     = (Inl InvalidHost, []) \<and>
   async_step_user example_consts (example_libs (Inr ()) hub_configuration) [] init_flow
       (Some (example_input ''ftp://192.168.1.50''))
     = (init_flow, ShowForm ''user'' (data_schema example_consts (discovered_conf init_flow))
                     (Some [(''base'', ''invalid_host'')]))"
proof -
  have 1: "urlparse (example_libs (Inr ()) hub_configuration)
             (host (example_input ''ftp://192.168.1.50''))
           = Inr \<lparr>scheme = ''ftp'', hostname = Some ''192.168.1.50'', port = Inr None, path = []\<rparr>"
    by (simp add: example_libs_def example_input_def example_urlparse_def)
  have 2: "scheme \<lparr>scheme = ''ftp'', hostname = Some ''192.168.1.50'', port = Inr None,
                   path = []\<rparr> \<noteq> ''http''"
    and 3: "scheme \<lparr>scheme = ''ftp'', hostname = Some ''192.168.1.50'', port = Inr None,
                   path = []\<rparr> \<noteq> ''https''"
    by simp_all
  show ?thesis
    using unknown_scheme_invalid_host [OF 1 2 3, of example_consts "[]" init_flow] by simp
qed

text \<open>
  Claim C4. With no port in the URL, the validation calls the fetch once, with port 80
  and no encryption for the scheme \<open>http\<close>, with port 443 and encryption for the
  scheme \<open>https\<close>.
\<close>

theorem default_ports:
  assumes "urlparse L (host ui) = Inr h" and "port h = Inr None"
  shows "(scheme h = ''http'' \<longrightarrow>
            map arg_port (snd (validate_input L ui)) = [80] \<and>
            map arg_use_https (snd (validate_input L ui)) = [False]) \<and>
         (scheme h = ''https'' \<longrightarrow>
            map arg_port (snd (validate_input L ui)) = [443] \<and>
            map arg_use_https (snd (validate_input L ui)) = [True])"
proof (intro conjI impI)
  assume "scheme h = ''http''"
  with assms(2) have "scheme_and_port h = Inr (False, 80)"
    by (simp add: scheme_and_port_def port_or_def)
  from validate_input_args [OF assms(1) this]
  show "map arg_port (snd (validate_input L ui)) = [80]"
    and "map arg_use_https (snd (validate_input L ui)) = [False]"
    by simp_all
next
  assume "scheme h = ''https''"
  with assms(2) have "scheme_and_port h = Inr (True, 443)"
    by (simp add: scheme_and_port_def port_or_def)
  from validate_input_args [OF assms(1) this]
  show "map arg_port (snd (validate_input L ui)) = [443]"
    and "map arg_use_https (snd (validate_input L ui)) = [True]"
    by simp_all
qed

theorem default_ports_witness:
  "map arg_port (snd (validate_input (example_libs (Inr ()) hub_configuration)
                        (example_input ''http://192.168.1.50''))) = [80] \<and>
   map arg_use_https (snd (validate_input (example_libs (Inr ()) hub_configuration)
                             (example_input ''http://192.168.1.50''))) = [False] \<and>
   map arg_port (snd (validate_input (example_libs (Inr ()) hub_configuration)
                        (example_input ''https://192.168.1.50''))) = [443] \<and>
   map arg_use_https (snd (validate_input (example_libs (Inr ()) hub_configuration)
                             (example_input ''https://192.168.1.50''))) = [True]"
proof -
  have 1: "urlparse (example_libs (Inr ()) hub_configuration)
             (host (example_input ''http://192.168.1.50''))
           = Inr \<lparr>scheme = ''http'', hostname = Some ''192.168.1.50'', port = Inr None, path = []\<rparr>"
    by (simp add: example_libs_def example_input_def example_urlparse_def)
  have 2: "urlparse (example_libs (Inr ()) hub_configuration)
             (host (example_input ''https://192.168.1.50''))
           = Inr \<lparr>scheme = ''https'', hostname = Some ''192.168.1.50'', port = Inr None, path = []\<rparr>"
    by (simp add: example_libs_def example_input_def example_urlparse_def)
  have 3: "port \<lparr>scheme = ''http'', hostname = Some ''192.168.1.50'', port = Inr None,
                 path = []\<rparr> = Inr None"
    and 4: "port \<lparr>scheme = ''https'', hostname = Some ''192.168.1.50'', port = Inr None,
                 path = []\<rparr> = Inr None"
    by simp_all
  show ?thesis
    using default_ports [OF 1 3] default_ports [OF 2 4] by simp
qed

subsection \<open>Failures of the device-control library\<close>

text \<open>
  Claim C5. The library signals rejected credentials by a \<^verbatim>\<open>ValueError\<close> of the
  connection constructor that carries its message. When the call the validation makes
  ends so, the validation raises \<open>InvalidAuth\<close> with that message and the user step
  shows the form with the error kind \<open>invalid_auth\<close>.
\<close>

theorem credential_failure_invalid_auth:
  assumes "snd (validate_input L ui) = [a]"
    and "Connection L a = Inl (ValueError (m # ms))"
  shows "fst (validate_input L ui) = Inl (InvalidAuth m) \<and>
         async_step_user K L configured self (Some ui) =
           (self, ShowForm ''user'' (data_schema K (discovered_conf self))
                    (Some [(''base'', ''invalid_auth'')]))"
proof -
  from assms(2) have "fetch_isy_configuration L a = Inl (InvalidAuth m)"
    by (simp add: fetch_isy_configuration_def)
  with validate_input_call [OF assms(1)]
  have v: "fst (validate_input L ui) = Inl (InvalidAuth m)" by auto
  from async_step_user_failed [OF v] v show ?thesis by simp
qed

theorem credential_failure_invalid_auth_witness:
  "fst (validate_input (example_libs (Inl (ValueError [''bad credentials''])) hub_configuration)
          (example_input ''http://192.168.1.50'')) = Inl (InvalidAuth ''bad credentials'') \<and>
   async_step_user example_consts
       (example_libs (Inl (ValueError [''bad credentials''])) hub_configuration) [] init_flow
       (Some (example_input ''http://192.168.1.50''))
     = (init_flow, ShowForm ''user'' (data_schema example_consts (discovered_conf init_flow))
                     (Some [(''base'', ''invalid_auth'')]))"
proof -
  have 1: "snd (validate_input (example_libs (Inl (ValueError [''bad credentials''])) hub_configuration)
                  (example_input ''http://192.168.1.50'')) = [example_args False 80]"
    by (simp add: example_calls)
  have 2: "Connection (example_libs (Inl (ValueError [''bad credentials''])) hub_configuration)
             (example_args False 80) = Inl (ValueError (''bad credentials'' # []))"
    by (simp add: example_libs_def)
  show ?thesis
    using credential_failure_invalid_auth [OF 1 2, of example_consts "[]" init_flow] by simp
qed

text \<open>
  Claim C6. When the fetch made by the validation returns a configuration that is
  empty, has no name, or has a falsy name (the empty string, or \<^verbatim>\<open>None\<close>), the
  validation raises \<open>CannotConnect\<close> and the user step shows the form with the error
  kind \<open>cannot_connect\<close>: it creates no entry and leaves the flow as it was.
\<close>

theorem unusable_name_cannot_connect:
  assumes "snd (validate_input L ui) = [a]"
    and "fetch_isy_configuration L a = Inr conf"
    and "conf = [] \<or> map_of conf ''name'' = None \<or>
         (\<exists>v. map_of conf ''name'' = Some v \<and> \<not> py_truthy v)"
  shows "fst (validate_input L ui) = Inl CannotConnect \<and>
         async_step_user K L configured self (Some ui) =
           (self, ShowForm ''user'' (data_schema K (discovered_conf self))
                    (Some [(''base'', ''cannot_connect'')]))"
proof -
  from assms(3) have "check_configuration h conf = Inl CannotConnect" for h
    by (auto simp add: check_configuration_def)
  with validate_input_call [OF assms(1)] assms(2)
  have v: "fst (validate_input L ui) = Inl CannotConnect" by auto
  from async_step_user_failed [OF v] v show ?thesis by simp
qed

theorem unusable_name_cannot_connect_witness:
  "fst (validate_input (example_libs (Inr ()) [(''name'', PyStr []), (''uuid'', PyStr ''ABC123'')])
          (example_input ''http://192.168.1.50'')) = Inl CannotConnect \<and>
   async_step_user example_consts
       (example_libs (Inr ()) [(''name'', PyStr []), (''uuid'', PyStr ''ABC123'')]) [] init_flow
       (Some (example_input ''http://192.168.1.50''))
     = (init_flow, ShowForm ''user'' (data_schema example_consts (discovered_conf init_flow))
                     (Some [(''base'', ''cannot_connect'')]))"
proof -
  have 1: "snd (validate_input
                  (example_libs (Inr ()) [(''name'', PyStr []), (''uuid'', PyStr ''ABC123'')])
                  (example_input ''http://192.168.1.50'')) = [example_args False 80]"
    by (simp add: example_calls)
  have 2: "fetch_isy_configuration
             (example_libs (Inr ()) [(''name'', PyStr []), (''uuid'', PyStr ''ABC123'')])
             (example_args False 80) = Inr [(''name'', PyStr []), (''uuid'', PyStr ''ABC123'')]"
    by (simp add: fetch_isy_configuration_def example_libs_def)
  have 3: "[(''name'', PyStr []), (''uuid'', PyStr ''ABC123'')] = [] \<or>
           map_of [(''name'', PyStr []), (''uuid'', PyStr ''ABC123'')] ''name'' = None \<or>
           (\<exists>v. map_of [(''name'', PyStr []), (''uuid'', PyStr ''ABC123'')] ''name'' = Some v \<and>
                \<not> py_truthy v)"
    by simp
  show ?thesis
    using unusable_name_cannot_connect [OF 1 2 3, of example_consts "[]" init_flow] by simp
qed

subsection \<open>Discovery\<close>

text \<open>
  Claim C7. When the device identifier of a discovery record is the known prefix followed
  by \<open>ident\<close> and its location is \<open>base\<close> followed by the known suffix, the discovery
  step gives the flow the unique id \<open>ident\<close>; unless \<open>ident\<close> is already configured,
  it stores \<open>base\<close> as the host of the prefill state and shows the user form with
  \<open>base\<close> as the default of the host field.
\<close>

theorem discovery_strips_affixes:
  assumes "upnp_udn d = UDN_UUID_PREFIX @ ident"
    and "ssdp_location d = base @ ISY_URL_POSTFIX"
  shows "unique_id (fst (async_step_ssdp K L configured self d)) = PyStr ident \<and>
         (ident \<notin> set configured \<longrightarrow>
            discovered_conf (fst (async_step_ssdp K L configured self d)) (CONF_HOST K) = Some base \<and>
            snd (async_step_ssdp K L configured self d) =
              ShowForm ''user'' \<lparr>host_default = base, tls_ver_default = DEFAULT_TLS_VERSION K\<rparr>
                (Some []))"
proof -
  have m: "ident = (if startswith (upnp_udn d) UDN_UUID_PREFIX
                    then slice_from (upnp_udn d) (length UDN_UUID_PREFIX) else upnp_udn d)"
    using assms(1) by (simp add: startswith_append slice_from_prefix)
  have "ISY_URL_POSTFIX \<noteq> []" by (simp add: ISY_URL_POSTFIX_def)
  then have u: "base = (if endswith (ssdp_location d) ISY_URL_POSTFIX
                        then slice_to_neg (ssdp_location d) (length ISY_URL_POSTFIX)
                        else ssdp_location d)"
    using assms(2) by (simp add: endswith_append slice_to_neg_suffix)
  show ?thesis
    by (simp add: async_step_ssdp_result [OF m u refl])
qed

theorem discovery_strips_affixes_witness:
  "unique_id (fst (async_step_ssdp example_consts (example_libs (Inr ()) hub_configuration) []
                     init_flow example_discovery)) = PyStr ''ABC123'' \<and>
   discovered_conf (fst (async_step_ssdp example_consts (example_libs (Inr ()) hub_configuration)
                           [] init_flow example_discovery)) ''host''
     = Some ''http://192.168.1.50:80'' \<and>
   snd (async_step_ssdp example_consts (example_libs (Inr ()) hub_configuration) [] init_flow
          example_discovery)
     = ShowForm ''user'' \<lparr>host_default = ''http://192.168.1.50:80'', tls_ver_default = TLS_1_1\<rparr>
         (Some [])"
proof -
  have 1: "upnp_udn example_discovery = UDN_UUID_PREFIX @ ''ABC123''"
    by (simp add: example_discovery_def UDN_UUID_PREFIX_def)
  have 2: "ssdp_location example_discovery = ''http://192.168.1.50:80'' @ ISY_URL_POSTFIX"
    by (simp add: example_discovery_def ISY_URL_POSTFIX_def)
  have 3: "CONF_HOST example_consts = ''host''"
    and 4: "DEFAULT_TLS_VERSION example_consts = TLS_1_1"
    by (simp_all add: example_consts_def)
  show ?thesis
    using discovery_strips_affixes [OF 1 2, of example_consts
        "example_libs (Inr ()) hub_configuration" "[]" init_flow] 3 4
    by simp
qed

text \<open>
  Claim C10. An identifier that does not start with the known prefix becomes the unique
  id of the flow unchanged, and a location that does not end with the known suffix
  becomes the host of the prefill state unchanged (the prefill state is set unless the
  step aborts). In every case the identifier read is the unique id, or the prefix
  followed by the unique id, and the location read is the stored host, or the stored
  host followed by the suffix: an affix is removed at most once.
\<close>

theorem discovery_keeps_without_affix:
  "(\<not> startswith (upnp_udn d) UDN_UUID_PREFIX \<longrightarrow>
      unique_id (fst (async_step_ssdp K L configured self d)) = PyStr (upnp_udn d)) \<and>
   (\<not> endswith (ssdp_location d) ISY_URL_POSTFIX \<and>
    snd (async_step_ssdp K L configured self d) \<noteq> Abort \<longrightarrow>
      discovered_conf (fst (async_step_ssdp K L configured self d)) (CONF_HOST K)
        = Some (ssdp_location d)) \<and>
   (\<exists>ident. unique_id (fst (async_step_ssdp K L configured self d)) = PyStr ident \<and>
      (upnp_udn d = ident \<or> upnp_udn d = UDN_UUID_PREFIX @ ident)) \<and>
   (snd (async_step_ssdp K L configured self d) \<noteq> Abort \<longrightarrow>
      (\<exists>h. discovered_conf (fst (async_step_ssdp K L configured self d)) (CONF_HOST K) = Some h \<and>
         (ssdp_location d = h \<or> ssdp_location d = h @ ISY_URL_POSTFIX)))"
proof -
  define mac where "mac = (if startswith (upnp_udn d) UDN_UUID_PREFIX
      then slice_from (upnp_udn d) (length UDN_UUID_PREFIX) else upnp_udn d)"
  define url where "url = (if endswith (ssdp_location d) ISY_URL_POSTFIX
      then slice_to_neg (ssdp_location d) (length ISY_URL_POSTFIX) else ssdp_location d)"
  note r = async_step_ssdp_result [OF mac_def url_def refl, of K L configured self]
  have ne: "ISY_URL_POSTFIX \<noteq> []" by (simp add: ISY_URL_POSTFIX_def)
  have id: "unique_id (fst (async_step_ssdp K L configured self d)) = PyStr mac"
    by (simp add: r)
  have hst: "discovered_conf (fst (async_step_ssdp K L configured self d)) (CONF_HOST K) = Some url"
    if "snd (async_step_ssdp K L configured self d) \<noteq> Abort"
    using that by (simp add: r split: if_splits)
  have m: "upnp_udn d = mac \<or> upnp_udn d = UDN_UUID_PREFIX @ mac"
  proof (cases "startswith (upnp_udn d) UDN_UUID_PREFIX")
    case True
    then obtain rest where "upnp_udn d = UDN_UUID_PREFIX @ rest"
      by (auto simp add: startswith_iff)
    with True show ?thesis by (simp add: mac_def slice_from_prefix)
  next
    case False
    then show ?thesis by (simp add: mac_def)
  qed
  have u: "ssdp_location d = url \<or> ssdp_location d = url @ ISY_URL_POSTFIX"
  proof (cases "endswith (ssdp_location d) ISY_URL_POSTFIX")
    case True
    then obtain b where "ssdp_location d = b @ ISY_URL_POSTFIX"
      by (auto simp add: endswith_iff)
    with True ne show ?thesis by (simp add: url_def slice_to_neg_suffix)
  next
    case False
    then show ?thesis by (simp add: url_def)
  qed
  have 1: "\<not> startswith (upnp_udn d) UDN_UUID_PREFIX \<longrightarrow>
      unique_id (fst (async_step_ssdp K L configured self d)) = PyStr (upnp_udn d)"
    using id by (simp add: mac_def)
  have 2: "\<not> endswith (ssdp_location d) ISY_URL_POSTFIX \<and>
      snd (async_step_ssdp K L configured self d) \<noteq> Abort \<longrightarrow>
      discovered_conf (fst (async_step_ssdp K L configured self d)) (CONF_HOST K)
        = Some (ssdp_location d)"
    using hst by (simp add: url_def)
  have 3: "\<exists>ident. unique_id (fst (async_step_ssdp K L configured self d)) = PyStr ident \<and>
      (upnp_udn d = ident \<or> upnp_udn d = UDN_UUID_PREFIX @ ident)"
    using id m by blast
  have 4: "snd (async_step_ssdp K L configured self d) \<noteq> Abort \<longrightarrow>
      (\<exists>h. discovered_conf (fst (async_step_ssdp K L configured self d)) (CONF_HOST K) = Some h \<and>
         (ssdp_location d = h \<or> ssdp_location d = h @ ISY_URL_POSTFIX))"
    using hst u by blast
  from 1 2 3 4 show ?thesis by blast
qed

theorem discovery_keeps_without_affix_witness:
  "\<not> startswith (upnp_udn plain_discovery) UDN_UUID_PREFIX \<and>
   \<not> endswith (ssdp_location plain_discovery) ISY_URL_POSTFIX \<and>
   unique_id (fst (async_step_ssdp example_consts (example_libs (Inr ()) hub_configuration) []
                     init_flow plain_discovery)) = PyStr ''ABC123'' \<and>
   discovered_conf (fst (async_step_ssdp example_consts (example_libs (Inr ()) hub_configuration)
                           [] init_flow plain_discovery)) ''host''
     = Some ''http://192.168.1.50:80''"
proof -
  have 1: "\<not> startswith (upnp_udn plain_discovery) UDN_UUID_PREFIX"
    by (simp add: plain_discovery_def UDN_UUID_PREFIX_def startswith_def)
  have 2: "\<not> endswith (ssdp_location plain_discovery) ISY_URL_POSTFIX"
    by (simp add: plain_discovery_def ISY_URL_POSTFIX_def endswith_def)
  have 3: "snd (async_step_ssdp example_consts (example_libs (Inr ()) hub_configuration) []
                  init_flow plain_discovery) \<noteq> Abort"
    by (simp add: async_step_ssdp_result [OF refl refl refl])
  have 4: "upnp_udn plain_discovery = ''ABC123''"
    and 5: "ssdp_location plain_discovery = ''http://192.168.1.50:80''"
    by (simp_all add: plain_discovery_def)
  have 6: "CONF_HOST example_consts = ''host''"
    by (simp add: example_consts_def)
  show ?thesis
    using discovery_keeps_without_affix [of plain_discovery example_consts
        "example_libs (Inr ()) hub_configuration" "[]" init_flow] 1 2 3 4 5 6
    by simp
qed

subsection \<open>The form after a failed validation\<close>

text \<open>
  Claim C8, as the spec states it, has the form after a failed validation pre-filled
  with the host of the failed submission. The form is built from the prefill state of
  the flow instead: in a new flow, the submission of \<open>ftp://192.168.1.50\<close> fails with
  \<open>InvalidHost\<close> and the form comes back with the empty string as the host default.
\<close>

theorem failed_form_prefill_counterexample:
  "fst (validate_input (example_libs (Inr ()) hub_configuration)
          (example_input ''ftp://192.168.1.50'')) = Inl InvalidHost \<and>
   prefilled_host (snd (async_step_user example_consts (example_libs (Inr ()) hub_configuration)
                          [] init_flow (Some (example_input ''ftp://192.168.1.50'')))) = Some [] \<and>
   prefilled_host (snd (async_step_user example_consts (example_libs (Inr ()) hub_configuration)
                          [] init_flow (Some (example_input ''ftp://192.168.1.50''))))
     \<noteq> Some (host (example_input ''ftp://192.168.1.50''))"
  by (simp add: async_step_user_def validate_input_def example_libs_def example_urlparse_def
      example_input_def scheme_and_port_def prefilled_host_def data_schema_def init_flow_def)

text \<open>
  Claim C8, amended. When the validation of a submission on the user path fails, the
  step leaves the flow as it was and shows the form of the step \<open>user\<close> again, with
  the host default taken from the prefill state of the flow (the host stored by a
  discovery, the empty string if there is none), and with exactly one error, under
  the key \<open>base\<close>, whose kind is one of \<open>invalid_host\<close>, \<open>cannot_connect\<close>,
  \<open>invalid_auth\<close> and \<open>unknown\<close>.
\<close>

theorem failed_form_prefill_from_flow:
  assumes "fst (validate_input L ui) = Inl err"
  shows "async_step_user K L configured self (Some ui) =
           (self, ShowForm ''user''
                    \<lparr>host_default = (case discovered_conf self (CONF_HOST K) of
                                       None \<Rightarrow> [] | Some v \<Rightarrow> v),
                     tls_ver_default = DEFAULT_TLS_VERSION K\<rparr>
                    (Some [(''base'', error_kind err)])) \<and>
         error_kind err \<in> {''invalid_host'', ''cannot_connect'', ''invalid_auth'', ''unknown''}"
proof -
  have "error_kind err \<in> {''invalid_host'', ''cannot_connect'', ''invalid_auth'', ''unknown''}"
    by (cases err) simp_all
  with async_step_user_failed [OF assms] show ?thesis
    by (simp add: data_schema_def)
qed

theorem failed_form_prefill_from_flow_witness:
  "fst (validate_input (example_libs (Inr ()) hub_configuration)
          (example_input ''ftp://192.168.1.50'')) = Inl InvalidHost \<and>
   async_step_user example_consts (example_libs (Inr ()) hub_configuration) [] discovered_flow
       (Some (example_input ''ftp://192.168.1.50''))
     = (discovered_flow,
        ShowForm ''user'' \<lparr>host_default = ''http://192.168.1.50:80'', tls_ver_default = TLS_1_1\<rparr>
          (Some [(''base'', ''invalid_host'')]))"
proof -
  have 1: "fst (validate_input (example_libs (Inr ()) hub_configuration)
                  (example_input ''ftp://192.168.1.50'')) = Inl InvalidHost"
    by (simp add: validate_input_def example_libs_def example_urlparse_def example_input_def
        scheme_and_port_def)
  have 2: "discovered_conf discovered_flow (CONF_HOST example_consts) = Some ''http://192.168.1.50:80''"
    by (simp add: discovered_flow_def async_step_ssdp_result [OF refl refl refl]
        example_discovery_def ISY_URL_POSTFIX_def endswith_def slice_to_neg_def)
  have 3: "DEFAULT_TLS_VERSION example_consts = TLS_1_1"
    by (simp add: example_consts_def)
  show ?thesis
    using failed_form_prefill_from_flow [OF 1, of example_consts "[]" discovered_flow] 1 2 3
    by simp
qed

subsection \<open>The options flow\<close>




end
